theory Spec2Isabelle
  imports Main "HOL-Library.Char_ord" "HOL-Library.List_Lexorder"
begin

section \<open>Text\<close>

text \<open>
  A Python \<open>str\<close> is a sequence of code points. It is modelled by \<^typ>\<open>string\<close>, each
  \<^typ>\<open>char\<close> standing for the code point of the same number, so the model speaks of the
  texts whose code points are below 256. The order on \<^typ>\<open>char\<close> is the order of the
  code points, and the order on texts is the lexicographic one, as Python compares
  \<open>str\<close> values.
\<close>

abbreviation (input) LF :: char where \<open>LF \<equiv> CHR 0x0A\<close>
abbreviation (input) CR :: char where \<open>CR \<equiv> CHR 0x0D\<close>
abbreviation (input) squote :: char where \<open>squote \<equiv> CHR 0x27\<close>
abbreviation (input) dquote :: char where \<open>dquote \<equiv> CHR 0x22\<close>
abbreviation (input) backslash :: char where \<open>backslash \<equiv> CHR 0x5C\<close>

text \<open>
  \<open>str.isspace\<close> on one code point below 256: the controls 9 to 13 and 28 to 31, the
  space, NEL (0x85) and the no-break space (0xA0).
\<close>

definition isspace :: \<open>char \<Rightarrow> bool\<close> where
  \<open>isspace c \<longleftrightarrow>
     (let n = (of_char c :: nat)
      in (9 \<le> n \<and> n \<le> 13) \<or> (28 \<le> n \<and> n \<le> 32) \<or> n = 0x85 \<or> n = 0xA0)\<close>

text \<open>\<open>s.strip()\<close>: leading and trailing whitespace removed.\<close>

definition strip :: \<open>string \<Rightarrow> string\<close> where
  \<open>strip s = rev (dropWhile isspace (rev (dropWhile isspace s)))\<close>

text \<open>A text that \<open>strip\<close> leaves as it is: empty, or with no whitespace at either end.\<close>

definition stripped :: \<open>string \<Rightarrow> bool\<close> where
  \<open>stripped s \<longleftrightarrow> s = [] \<or> (\<not> isspace (hd s) \<and> \<not> isspace (last s))\<close>

section \<open>String escaper\<close>

text \<open>
  \<open>js_str_esc\<close> (lines 93 to 121) loops over its argument with \<open>for c in s\<close> and
  appends to \<open>res\<close>. The argument is a \<open>str\<close>, whose items are its one-character
  strings, or, for a multi-valued attribute such as \<open>class\<close>, the list of strings that
  the tree builder stores. \<open>js_str_esc_iter\<close> is the loop over the items and
  \<open>js_esc_item\<close> what one pass of its body appends to \<open>res\<close>: in both cases an item is
  compared with the three one-character strings and appended whole otherwise.
\<close>

definition js_esc_item :: \<open>string \<Rightarrow> string\<close> where
  \<open>js_esc_item c =
     (if c = [squote] then [backslash, squote]
      else if c = [LF] then [backslash, CHR ''n'']
      else if c = [backslash] then [backslash, backslash]
      else c)\<close>

definition js_str_esc_iter :: \<open>string list \<Rightarrow> string\<close> where
  \<open>js_str_esc_iter items = foldl (\<lambda>res c. res @ js_esc_item c) [] items\<close>

definition js_str_esc :: \<open>string \<Rightarrow> string\<close> where
  \<open>js_str_esc s = js_str_esc_iter (map (\<lambda>c. [c]) s)\<close>

subsection \<open>Reading a single-quoted JavaScript string literal\<close>

text \<open>
  The reader of the text between the two quotes of a single-quoted string literal, after
  the ECMAScript grammar of \<open>SingleStringCharacter\<close>: any character except the quote, the
  backslash and a line terminator (LF and CR, below 256) stands for itself; a backslash
  starts an escape sequence or a line continuation. The single-character escapes, the
  escape of any other character, \<open>\0\<close> and the line continuations are read; the
  hexadecimal, Unicode and octal escapes are outside the fragment read here, and a text
  that uses one is not read. \<open>None\<close> is a text that is not the body of one literal.
\<close>

definition js_single_escape :: \<open>char \<Rightarrow> char\<close> where
  \<open>js_single_escape d =
     (if d = CHR ''n'' then LF
      else if d = CHR ''r'' then CR
      else if d = CHR ''t'' then CHR 0x09
      else if d = CHR ''b'' then CHR 0x08
      else if d = CHR ''f'' then CHR 0x0C
      else if d = CHR ''v'' then CHR 0x0B
      else if d = CHR ''0'' then CHR 0x00
      else d)\<close>

definition js_numeric_escape :: \<open>char \<Rightarrow> bool\<close> where
  \<open>js_numeric_escape d \<longleftrightarrow> d = CHR ''x'' \<or> d = CHR ''u'' \<or> d \<in> set ''123456789''\<close>

fun js_read_single_quoted :: \<open>string \<Rightarrow> string option\<close> where
  \<open>js_read_single_quoted [] = Some []\<close>
| \<open>js_read_single_quoted [c] =
     (if c = squote \<or> c = backslash \<or> c = LF \<or> c = CR then None else Some [c])\<close>
| \<open>js_read_single_quoted (c # d # cs) =
     (if c = squote \<or> c = LF \<or> c = CR then None
      else if c = backslash then
        (if js_numeric_escape d then None
         else if d = CHR ''0'' \<and> (case cs of e # _ \<Rightarrow> e \<in> set ''0123456789'' | [] \<Rightarrow> False)
           then None
         else if d = LF then js_read_single_quoted cs
         else if d = CR then
           (case cs of
              e # es \<Rightarrow> if e = LF then js_read_single_quoted es else js_read_single_quoted cs
            | [] \<Rightarrow> js_read_single_quoted cs)
         else map_option ((#) (js_single_escape d)) (js_read_single_quoted cs))
      else map_option ((#) c) (js_read_single_quoted (d # cs)))\<close>

section \<open>Metadata parser\<close>

text \<open>
  \<open>\w\<close> of a \<open>str\<close> pattern on one code point below 256: the underscore and the code
  points that are alphabetic, decimal, digit or numeric.
\<close>

definition isword :: \<open>char \<Rightarrow> bool\<close> where
  \<open>isword c \<longleftrightarrow>
     (let n = (of_char c :: nat)
      in (0x30 \<le> n \<and> n \<le> 0x39) \<or> (0x41 \<le> n \<and> n \<le> 0x5A) \<or> n = 0x5F
         \<or> (0x61 \<le> n \<and> n \<le> 0x7A)
         \<or> n \<in> {0xAA, 0xB2, 0xB3, 0xB5, 0xB9, 0xBA, 0xBC, 0xBD, 0xBE}
         \<or> (0xC0 \<le> n \<and> n \<le> 0xD6) \<or> (0xD8 \<le> n \<and> n \<le> 0xF6) \<or> 0xF8 \<le> n)\<close>

text \<open>
  \<open>src.split("\n\n", 2)[0]\<close>: the text before the first occurrence of two consecutive
  line breaks, the whole text when there is none.
\<close>

fun before_blank_line :: \<open>string \<Rightarrow> string\<close> where
  \<open>before_blank_line (a # b # cs) =
     (if a = LF \<and> b = LF then [] else a # before_blank_line (b # cs))\<close>
| \<open>before_blank_line cs = cs\<close>

text \<open>\<open>s.split("\n")\<close>: the pieces between the line breaks, one more than line breaks.\<close>

fun split_lines :: \<open>string \<Rightarrow> string list\<close> where
  \<open>split_lines [] = [[]]\<close>
| \<open>split_lines (c # cs) =
     (let ls = split_lines cs in if c = LF then [] # ls else (c # hd ls) # tl ls)\<close>

text \<open>
  \<open>re.match("^<!-- (\w*?) (.*?) -->$", line)\<close> on a line without line break, giving the
  two groups. After the opener, the lazy \<open>\w*?\<close> can only stop in front of a space, and a
  space is no word character, so group 1 is the run of word characters up to the first
  other character, which has to be a space. The rest has to end with the closer, and
  group 2 is the rest without it.
\<close>

definition match_property :: \<open>string \<Rightarrow> (string \<times> string) option\<close> where
  \<open>match_property line =
     (if take 5 line = ''<!-- '' then
        (let rest = drop 5 line; name = takeWhile isword rest
         in case dropWhile isword rest of
              [] \<Rightarrow> None
            | c # body \<Rightarrow>
                if c = CHR '' '' \<and> 4 \<le> length body \<and> drop (length body - 4) body = '' -->''
                then Some (name, take (length body - 4) body)
                else None)
      else None)\<close>

definition parse_properties :: \<open>string \<Rightarrow> (string \<rightharpoonup> string)\<close> where
  \<open>parse_properties src =
     foldl (\<lambda>properties line.
        case match_property line of
          None \<Rightarrow> properties
        | Some (name, val) \<Rightarrow> properties(name \<mapsto> val))
       Map.empty (split_lines (before_blank_line src))\<close>

section \<open>The parsed document\<close>

text \<open>
  The tree that the tree builder returns. A \<open>NavigableString\<close> (also a comment, which is
  a subclass) carries its text; a \<open>Tag\<close> has a name, its attribute dictionary in
  insertion order and its children. An attribute value is a \<open>str\<close>, or a list of
  \<open>str\<close> for the multi-valued attributes (\<open>class\<close> among them).
\<close>

datatype attr_value = Str string | StrList \<open>string list\<close>

datatype node =
    NavigableString string
  | Tag string \<open>(string \<times> attr_value) list\<close> \<open>node list\<close>

fun attrs :: \<open>node \<Rightarrow> (string \<times> attr_value) list\<close> where
  \<open>attrs (Tag name as cs) = as\<close>
| \<open>attrs (NavigableString s) = []\<close>

fun contents :: \<open>node \<Rightarrow> node list\<close> where
  \<open>contents (Tag name as cs) = cs\<close>
| \<open>contents (NavigableString s) = []\<close>

text \<open>\<open>tag.descendants\<close>: every node below the tag, in document order.\<close>

fun descendants :: \<open>node \<Rightarrow> node list\<close> where
  \<open>descendants (NavigableString s) = []\<close>
| \<open>descendants (Tag name as cs) = concat (map (\<lambda>c. c # descendants c) cs)\<close>

fun has_name :: \<open>string \<Rightarrow> node \<Rightarrow> bool\<close> where
  \<open>has_name n (Tag name as cs) \<longleftrightarrow> name = n\<close>
| \<open>has_name n (NavigableString s) \<longleftrightarrow> False\<close>

text \<open>
  How \<open>find_all\<close> compares an attribute with a wanted text: a \<open>str\<close> has to be equal;
  of a list, an item or the items joined by spaces.
\<close>

fun join_spaces :: \<open>string list \<Rightarrow> string\<close> where
  \<open>join_spaces [] = []\<close>
| \<open>join_spaces [x] = x\<close>
| \<open>join_spaces (x # y # ys) = x @ '' '' @ join_spaces (y # ys)\<close>

fun value_matches :: \<open>string \<Rightarrow> attr_value \<Rightarrow> bool\<close> where
  \<open>value_matches v (Str s) \<longleftrightarrow> s = v\<close>
| \<open>value_matches v (StrList l) \<longleftrightarrow> v \<in> set l \<or> join_spaces l = v\<close>

definition has_event :: \<open>string \<Rightarrow> node \<Rightarrow> bool\<close> where
  \<open>has_event v t \<longleftrightarrow>
     (case map_of (attrs t) ''event'' of None \<Rightarrow> False | Some a \<Rightarrow> value_matches v a)\<close>

text \<open>\<open>soup.find_all(name)\<close> and \<open>soup.find_all("script", event=v)\<close>.\<close>

definition find_all :: \<open>node \<Rightarrow> string \<Rightarrow> node list\<close> where
  \<open>find_all soup name = filter (has_name name) (descendants soup)\<close>

definition find_all_script :: \<open>node \<Rightarrow> string \<Rightarrow> node list\<close> where
  \<open>find_all_script soup v = filter (has_event v) (find_all soup ''script'')\<close>

section \<open>Template tree compiler\<close>

text \<open>
  \<open>html2js\<close> (lines 129 to 166) prints; the model returns the text it prints. The key
  of an attribute is renamed by \<open>attr_key\<close> (lines 157 and 158) before it is printed
  (line 159). \<open>tag[key]\<close> is the value stored under \<open>key\<close>, the one the loop over the
  dictionary meets with it.
\<close>

fun js_str_esc_value :: \<open>attr_value \<Rightarrow> string\<close> where
  \<open>js_str_esc_value (Str s) = js_str_esc s\<close>
| \<open>js_str_esc_value (StrList l) = js_str_esc_iter l\<close>

definition attr_key :: \<open>string \<Rightarrow> string\<close> where
  \<open>attr_key key = (if key = ''class'' then ''classList'' else key)\<close>

definition attr_js :: \<open>string \<times> attr_value \<Rightarrow> string\<close> where
  \<open>attr_js kv =
     [squote] @ js_str_esc (attr_key (fst kv)) @ [squote] @ '':'' @ [squote]
       @ js_str_esc_value (snd kv) @ [squote] @ '',''\<close>

fun html2js :: \<open>node \<Rightarrow> string\<close> where
  \<open>html2js (NavigableString s) = [dquote] @ js_str_esc s @ [dquote]\<close>
| \<open>html2js (Tag name as cs) =
     ''$e('' @ [squote] @ js_str_esc name @ [squote] @ '',{''
       @ concat (map attr_js as)
       @ ''},[''
       @ concat (map (\<lambda>t. html2js t @ '','') cs)
       @ ''])''\<close>

section \<open>What the compiler takes from outside\<close>

text \<open>
  The exceptions that the code can raise, and the outcome of running the external
  \<open>sassc\<close> executable: \<open>subprocess.run\<close> raises an \<open>OSError\<close> (the executable cannot be
  started), or returns the exit status and the captured output. The output is given
  decoded, \<open>None\<close> when it is not valid UTF-8, where \<open>decode\<close> raises.
\<close>

datatype error = AssertionError | KeyError string | TypeError | OSError | UnicodeDecodeError

datatype run_result = Raises_OSError | Completed int \<open>string option\<close>

text \<open>
  The library code and the outside world are parameters of the compiler: the tree
  builder \<open>BeautifulSoup(src, "html.parser")\<close>, the serialiser \<open>decode_contents\<close> of a
  tag's children, the run of \<open>sassc -h\<close> when the module is loaded, and the run of
  \<open>sassc -s -t compressed\<close> on a given input.
\<close>

record env =
  BeautifulSoup :: \<open>string \<Rightarrow> node\<close>
  decode_contents :: \<open>node \<Rightarrow> string\<close>
  run_sassc_help :: run_result
  run_sassc :: \<open>string \<Rightarrow> run_result\<close>

section \<open>Style preprocessor adapter\<close>

text \<open>\<open>sassc_available\<close> (lines 39 to 56): any exception gives \<open>False\<close>.\<close>

definition sassc_available :: \<open>env \<Rightarrow> bool\<close> where
  \<open>sassc_available e =
     (case run_sassc_help e of Raises_OSError \<Rightarrow> False | Completed returncode out \<Rightarrow> returncode = 0)\<close>

text \<open>
  \<open>sassc\<close> (lines 59 to 85), replaced by \<open>lambda x: x.strip()\<close> when the module is
  loaded without the executable (lines 88 to 90). The exit status of the run is not
  looked at.
\<close>

definition sassc :: \<open>env \<Rightarrow> string \<Rightarrow> error + string\<close> where
  \<open>sassc e style =
     (if \<not> sassc_available e then Inr (strip style)
      else case run_sassc e style of
             Raises_OSError \<Rightarrow> Inl OSError
           | Completed returncode out \<Rightarrow>
               (case out of None \<Rightarrow> Inl UnicodeDecodeError | Some css \<Rightarrow> Inr (strip css)))\<close>

section \<open>What a run does\<close>

text \<open>
  A piece of the program prints text, calls \<open>sassc\<close> and may raise. Its outcome is the
  text printed up to the exception, the arguments \<open>sassc\<close> was called with, and the
  exception if one was raised. \<open>seq\<close> runs one piece after another: nothing of the
  second happens when the first raises.
\<close>

record outcome =
  printed :: string
  sassc_calls :: \<open>string list\<close>
  raised :: \<open>error option\<close>

definition out :: \<open>string \<Rightarrow> outcome\<close> where
  \<open>out t = \<lparr>printed = t, sassc_calls = [], raised = None\<rparr>\<close>

definition raise :: \<open>error \<Rightarrow> outcome\<close> where
  \<open>raise e = \<lparr>printed = [], sassc_calls = [], raised = Some e\<rparr>\<close>

definition seq :: \<open>outcome \<Rightarrow> outcome \<Rightarrow> outcome\<close> where
  \<open>seq a b =
     (case raised a of
        Some e \<Rightarrow> a
      | None \<Rightarrow> \<lparr>printed = printed a @ printed b,
                 sassc_calls = sassc_calls a @ sassc_calls b,
                 raised = raised b\<rparr>)\<close>

definition seqs :: \<open>outcome list \<Rightarrow> outcome\<close> where
  \<open>seqs steps = foldr seq steps (out [])\<close>

section \<open>Class assembler\<close>

text \<open>\<open>tag[key]\<close>: the value of the attribute, \<open>KeyError\<close> when the tag has none.\<close>

definition getitem :: \<open>node \<Rightarrow> string \<Rightarrow> error + attr_value\<close> where
  \<open>getitem t key = (case map_of (attrs t) key of None \<Rightarrow> Inl (KeyError key) | Some v \<Rightarrow> Inr v)\<close>

text \<open>Lines 217 to 220: the style text is gathered from the style elements.\<close>

definition gather_style :: \<open>env \<Rightarrow> node list \<Rightarrow> string\<close> where
  \<open>gather_style e styles = foldl (\<lambda>style s. style @ strip (decode_contents e s)) [] styles\<close>

text \<open>
  Lines 222 to 225: the set of the observed attribute names. A list cannot be added to
  a set.
\<close>

fun gather_attributes :: \<open>string set \<Rightarrow> node list \<Rightarrow> error + string set\<close> where
  \<open>gather_attributes attributes [] = Inr attributes\<close>
| \<open>gather_attributes attributes (s # ss) =
     (case getitem s ''attr'' of
        Inl err \<Rightarrow> Inl err
      | Inr (StrList l) \<Rightarrow> Inl TypeError
      | Inr (Str a) \<Rightarrow> gather_attributes (insert a attributes) ss)\<close>

text \<open>Line 227. The name is printed as it is.\<close>

definition emit_define :: \<open>(string \<rightharpoonup> string) \<Rightarrow> outcome\<close> where
  \<open>emit_define properties =
     (case properties ''name'' of
        None \<Rightarrow> raise (KeyError ''name'')
      | Some name \<Rightarrow> out (''customElements.define('' @ [squote] @ name @ [squote] @ '',''))\<close>

text \<open>Lines 234 to 238.\<close>

definition emit_style :: \<open>env \<Rightarrow> string \<Rightarrow> outcome\<close> where
  \<open>emit_style e style =
     (if style \<noteq> [] then
        (case sassc e style of
           Inl err \<Rightarrow> \<lparr>printed = [], sassc_calls = [style], raised = Some err\<rparr>
         | Inr css \<Rightarrow>
             \<lparr>printed = ''this.shadow.append($e('style', {}, ['' @ [squote]
                          @ js_str_esc css @ [squote] @ '']));'',
              sassc_calls = [style], raised = None\<rparr>)
      else out [])\<close>

text \<open>Lines 240 to 243: the loop over a tag runs over its children.\<close>

definition emit_template :: \<open>node \<Rightarrow> outcome\<close> where
  \<open>emit_template tpl =
     out (concat (map (\<lambda>t. ''this.shadow.append('' @ html2js t @ '');'') (contents tpl)))\<close>

text \<open>The bodies of the script elements of one role, one after the other.\<close>

definition emit_bodies :: \<open>env \<Rightarrow> node \<Rightarrow> string \<Rightarrow> outcome\<close> where
  \<open>emit_bodies e soup role = out (concat (map (decode_contents e) (find_all_script soup role)))\<close>

text \<open>Lines 230 to 248.\<close>

definition emit_constructor :: \<open>env \<Rightarrow> node \<Rightarrow> node \<Rightarrow> string \<Rightarrow> outcome\<close> where
  \<open>emit_constructor e soup tpl style =
     seqs [out ''constructor(){'',
           out ''super();'',
           out ''this.shadow = this.attachShadow({'mode':'open'});'',
           emit_style e style,
           emit_template tpl,
           emit_bodies e soup ''constructor'',
           out ''}'']\<close>

text \<open>
  \<open>json.dumps\<close> of a list of \<open>str\<close>, with its defaults: the items between double quotes,
  separated by a comma and a space; in an item the backslash, the double quote and
  every code point outside the printable ASCII range are escaped.
\<close>

definition hex_digit :: \<open>nat \<Rightarrow> char\<close> where
  \<open>hex_digit n = ''0123456789abcdef'' ! (n mod 16)\<close>

definition json_esc_char :: \<open>char \<Rightarrow> string\<close> where
  \<open>json_esc_char c =
     (let n = (of_char c :: nat)
      in if c = backslash then [backslash, backslash]
         else if c = dquote then [backslash, dquote]
         else if c = CHR 0x08 then [backslash, CHR ''b'']
         else if c = CHR 0x0C then [backslash, CHR ''f'']
         else if c = LF then [backslash, CHR ''n'']
         else if c = CR then [backslash, CHR ''r'']
         else if c = CHR 0x09 then [backslash, CHR ''t'']
         else if 0x20 \<le> n \<and> n \<le> 0x7E then [c]
         else [backslash, CHR ''u'', CHR ''0'', CHR ''0'', hex_digit (n div 16), hex_digit n])\<close>

definition json_str :: \<open>string \<Rightarrow> string\<close> where
  \<open>json_str s = [dquote] @ concat (map json_esc_char s) @ [dquote]\<close>

fun join_comma :: \<open>string list \<Rightarrow> string\<close> where
  \<open>join_comma [] = []\<close>
| \<open>join_comma [x] = x\<close>
| \<open>join_comma (x # y # ys) = x @ '', '' @ join_comma (y # ys)\<close>

definition json_dumps :: \<open>string list \<Rightarrow> string\<close> where
  \<open>json_dumps xs = ''['' @ join_comma (map json_str xs) @ '']''\<close>

text \<open>Lines 250 to 253: \<open>sorted(list(attributes))\<close> is the ascending list of the set.\<close>

definition observed_attributes :: \<open>string set \<Rightarrow> string list\<close> where
  \<open>observed_attributes attributes = sorted_list_of_set attributes\<close>

definition emit_observed :: \<open>string set \<Rightarrow> outcome\<close> where
  \<open>emit_observed attributes =
     (if attributes \<noteq> {} then
        seqs [out ''static get observedAttributes(){return'',
              out (json_dumps (observed_attributes attributes)),
              out '';}'']
      else out [])\<close>

text \<open>Lines 255 to 269: a tag that \<open>find\<close> returns is true.\<close>

definition emit_callback :: \<open>env \<Rightarrow> node \<Rightarrow> string \<Rightarrow> string \<Rightarrow> outcome\<close> where
  \<open>emit_callback e soup role header =
     (if find_all_script soup role \<noteq> [] then
        seqs [out header, emit_bodies e soup role, out ''}'']
      else out [])\<close>

text \<open>
  Lines 271 to 279: the arguments of \<open>out\<close> are evaluated before anything is printed,
  and \<open>"".join\<close> refuses an item that is a list.
\<close>

definition emit_accessor :: \<open>env \<Rightarrow> string \<Rightarrow> string \<Rightarrow> node \<Rightarrow> outcome\<close> where
  \<open>emit_accessor e keyword params t =
     (case getitem t ''name'' of
        Inl err \<Rightarrow> raise err
      | Inr (StrList l) \<Rightarrow> raise TypeError
      | Inr (Str name) \<Rightarrow>
          seqs [out (keyword @ name @ params), out (decode_contents e t), out ''}''])\<close>

text \<open>Lines 281 to 287.\<close>

definition emit_attr_branch :: \<open>env \<Rightarrow> node \<Rightarrow> outcome\<close> where
  \<open>emit_attr_branch e s =
     (case getitem s ''attr'' of
        Inl err \<Rightarrow> raise err
      | Inr v \<Rightarrow>
          seqs [out (''if (__attrName === '' @ [squote] @ js_str_esc_value v @ [squote] @ ''){''),
                out (decode_contents e s),
                out ''}''])\<close>

definition emit_attribute_changed :: \<open>env \<Rightarrow> node \<Rightarrow> string set \<Rightarrow> outcome\<close> where
  \<open>emit_attribute_changed e soup attributes =
     (if attributes \<noteq> {} then
        seqs [out ''attributeChangedCallback(__attrName, oldValue, value){'',
              seqs (map (emit_attr_branch e) (find_all_script soup ''attr'')),
              out ''}'']
      else out [])\<close>

text \<open>Lines 250 to 289: what follows the constructor.\<close>

definition emit_members :: \<open>env \<Rightarrow> node \<Rightarrow> string set \<Rightarrow> outcome\<close> where
  \<open>emit_members e soup attributes =
     seqs [emit_observed attributes,
           emit_callback e soup ''connected'' ''connectedCallback(){'',
           emit_callback e soup ''disconnected'' ''disconnectedCallback(){'',
           seqs (map (emit_accessor e ''get '' ''(){'') (find_all_script soup ''getter'')),
           seqs (map (emit_accessor e ''set '' ''(value){'') (find_all_script soup ''setter'')),
           emit_attribute_changed e soup attributes,
           out ''});'']\<close>

text \<open>
  \<open>compile\<close> (lines 197 to 289). The assertion on the number of templates comes before
  anything is printed.
\<close>

definition compile :: \<open>env \<Rightarrow> string \<Rightarrow> outcome\<close> where
  \<open>compile e src =
     (let soup = BeautifulSoup e src;
          properties = parse_properties src
      in case find_all soup ''template'' of
           [tpl] \<Rightarrow>
             (let style = gather_style e (find_all soup ''style'')
              in case gather_attributes {} (find_all_script soup ''attr'') of
                   Inl err \<Rightarrow> raise err
                 | Inr attributes \<Rightarrow>
                     seqs [emit_define properties,
                           out ''class extends HTMLElement{'',
                           emit_constructor e soup tpl style,
                           emit_members e soup attributes])
         | _ \<Rightarrow> raise AssertionError)\<close>

section \<open>Example documents\<close>

text \<open>
  A serialiser for tags whose children are texts, as the children of a script or style
  element are: the texts one after the other.
\<close>

fun text_of :: \<open>node \<Rightarrow> string\<close> where
  \<open>text_of (NavigableString s) = s\<close>
| \<open>text_of (Tag name as cs) = []\<close>

definition text_contents :: \<open>node \<Rightarrow> string\<close> where
  \<open>text_contents t = concat (map text_of (contents t))\<close>

text \<open>
  The tree of \<open><template><span class="a b">hi</span></template>\<close>, followed by two style
  elements and three script elements of the role \<open>attr\<close>, two of them for the same
  attribute.
\<close>

definition widget_doc :: node where
  \<open>widget_doc =
     Tag ''[document]'' []
       [Tag ''template'' []
          [Tag ''span'' [(''class'', StrList [''a'', ''b''])] [NavigableString ''hi'']],
        Tag ''style'' [] [NavigableString ''a ''],
        Tag ''style'' [] [NavigableString ''b''],
        Tag ''script'' [(''event'', Str ''attr''), (''attr'', Str ''value'')]
          [NavigableString ''V;''],
        Tag ''script'' [(''event'', Str ''attr''), (''attr'', Str ''alpha'')]
          [NavigableString ''A;''],
        Tag ''script'' [(''event'', Str ''attr''), (''attr'', Str ''value'')]
          [NavigableString ''W;'']]\<close>

definition widget_src :: string where
  \<open>widget_src = ''<!-- name my-widget -->'' @ [LF, LF] @ ''<template>''\<close>

text \<open>A document with two templates, and one whose only style element is blank.\<close>

definition two_templates_doc :: node where
  \<open>two_templates_doc = Tag ''[document]'' [] [Tag ''template'' [] [], Tag ''template'' [] []]\<close>

definition blank_style_doc :: node where
  \<open>blank_style_doc =
     Tag ''[document]'' []
       [Tag ''template'' [] [NavigableString ''hi''],
        Tag ''style'' [] [NavigableString [CHR '' '', LF]],
        Tag ''script'' [(''event'', Str ''constructor'')] [NavigableString ''go();'']]\<close>

text \<open>
  Three worlds: no \<open>sassc\<close> on the machine; a \<open>sassc\<close> that was found when the module was
  loaded and then exits with status 1 and no output; one that was found and then cannot
  be started.
\<close>

definition no_sassc :: \<open>node \<Rightarrow> env\<close> where
  \<open>no_sassc doc =
     \<lparr>BeautifulSoup = (\<lambda>src. doc), decode_contents = text_contents,
      run_sassc_help = Raises_OSError, run_sassc = (\<lambda>style. Raises_OSError)\<rparr>\<close>

definition failing_sassc :: \<open>node \<Rightarrow> env\<close> where
  \<open>failing_sassc doc =
     \<lparr>BeautifulSoup = (\<lambda>src. doc), decode_contents = text_contents,
      run_sassc_help = Completed 0 (Some ''Usage''),
      run_sassc = (\<lambda>style. Completed 1 (Some []))\<rparr>\<close>

definition vanished_sassc :: \<open>node \<Rightarrow> env\<close> where
  \<open>vanished_sassc doc =
     \<lparr>BeautifulSoup = (\<lambda>src. doc), decode_contents = text_contents,
      run_sassc_help = Completed 0 (Some ''Usage''),
      run_sassc = (\<lambda>style. Raises_OSError)\<rparr>\<close>

section \<open>Running pieces one after another\<close>

lemma seqs_Nil: \<open>seqs [] = out []\<close>
  by (simp add: seqs_def)

lemma seqs_Cons: \<open>seqs (a # rest) = seq a (seqs rest)\<close>
  by (simp add: seqs_def)

lemma raised_out: \<open>raised (out t) = None\<close>
  by (simp add: out_def)

lemma printed_out: \<open>printed (out t) = t\<close>
  by (simp add: out_def)

lemma calls_out: \<open>sassc_calls (out t) = []\<close>
  by (simp add: out_def)

lemma raised_seq: \<open>raised (seq a b) = (case raised a of Some e \<Rightarrow> Some e | None \<Rightarrow> raised b)\<close>
  by (simp add: seq_def split: option.splits)

lemma printed_seq:
  \<open>printed (seq a b) = (if raised a = None then printed a @ printed b else printed a)\<close>
  by (simp add: seq_def split: option.splits)

lemma calls_seq:
  \<open>sassc_calls (seq a b) =
     (if raised a = None then sassc_calls a @ sassc_calls b else sassc_calls a)\<close>
  by (simp add: seq_def split: option.splits)

lemma seq_out_out: \<open>seq (out s) (out t) = out (s @ t)\<close>
  by (simp add: seq_def out_def)

lemma seq_out:
  \<open>seq (out s) b = \<lparr>printed = s @ printed b, sassc_calls = sassc_calls b, raised = raised b\<rparr>\<close>
  by (simp add: seq_def out_def)

lemma seq_raise: \<open>seq (raise err) b = raise err\<close>
  by (simp add: seq_def raise_def)

lemma raised_seqs: \<open>raised (seqs steps) = Some err \<Longrightarrow> \<exists>a \<in> set steps. raised a = Some err\<close>
  by (induction steps) (auto simp: seqs_Nil seqs_Cons raised_out raised_seq split: option.splits)

lemma calls_seqs:
  \<open>(\<And>a. a \<in> set steps \<Longrightarrow> sassc_calls a = []) \<Longrightarrow> sassc_calls (seqs steps) = []\<close>
  by (induction steps) (auto simp: seqs_Nil seqs_Cons calls_out calls_seq)

lemma seqs_outs: \<open>seqs (map out ts) = out (concat ts)\<close>
  by (induction ts) (simp_all add: seqs_Nil seqs_Cons seq_out_out)

section \<open>The string escaper\<close>

lemma foldl_append_items:
  \<open>foldl (\<lambda>res c. res @ f c) acc items = acc @ concat (map f items)\<close>
  by (induction items arbitrary: acc) simp_all

lemma js_str_esc_iter_concat: \<open>js_str_esc_iter items = concat (map js_esc_item items)\<close>
  by (simp add: js_str_esc_iter_def foldl_append_items)

lemma js_str_esc_Nil: \<open>js_str_esc [] = []\<close>
  by (simp add: js_str_esc_def js_str_esc_iter_concat)

lemma js_str_esc_Cons: \<open>js_str_esc (c # cs) = js_esc_item [c] @ js_str_esc cs\<close>
  by (simp add: js_str_esc_def js_str_esc_iter_concat)

lemma js_str_esc_append: \<open>js_str_esc (xs @ ys) = js_str_esc xs @ js_str_esc ys\<close>
  by (simp add: js_str_esc_def js_str_esc_iter_concat)

lemma js_str_esc_inject: \<open>js_str_esc s = js_str_esc t \<Longrightarrow> s = t\<close>
proof (induction s arbitrary: t)
  case Nil
  then show ?case
    by (cases t) (auto simp: js_str_esc_Nil js_str_esc_Cons js_esc_item_def split: if_splits)
next
  case (Cons a s)
  then show ?case
    by (cases t) (auto simp: js_str_esc_Nil js_str_esc_Cons js_esc_item_def split: if_splits)
qed

lemma read_plain:
  \<open>c \<noteq> squote \<Longrightarrow> c \<noteq> backslash \<Longrightarrow> c \<noteq> LF \<Longrightarrow> c \<noteq> CR \<Longrightarrow>
   js_read_single_quoted (c # rest) = map_option ((#) c) (js_read_single_quoted rest)\<close>
  by (cases rest) simp_all

lemma read_escape:
  \<open>d = squote \<or> d = backslash \<or> d = CHR ''n'' \<Longrightarrow>
   js_read_single_quoted (backslash # d # rest) =
     map_option ((#) (js_single_escape d)) (js_read_single_quoted rest)\<close>
  by (auto simp: js_numeric_escape_def)

text \<open>
  A text without carriage return is read back from its escaped form: each of the three
  escapes is read as the character it stands for, and every other character as itself.
\<close>

lemma js_read_js_str_esc:
  \<open>CR \<notin> set t \<Longrightarrow> js_read_single_quoted (js_str_esc t) = Some t\<close>
proof (induction t)
  case Nil
  show ?case by (simp add: js_str_esc_Nil)
next
  case (Cons c t)
  then have ih: \<open>js_read_single_quoted (js_str_esc t) = Some t\<close> and c: \<open>c \<noteq> CR\<close>
    by auto
  consider \<open>c = squote\<close> | \<open>c = LF\<close> | \<open>c = backslash\<close>
    | \<open>c \<noteq> squote\<close> \<open>c \<noteq> LF\<close> \<open>c \<noteq> backslash\<close> by blast
  then show ?case
  proof cases
    case 1
    then show ?thesis
      by (simp add: js_str_esc_Cons js_esc_item_def ih js_single_escape_def
          js_numeric_escape_def)
  next
    case 2
    then show ?thesis
      by (simp add: js_str_esc_Cons js_esc_item_def ih js_single_escape_def
          js_numeric_escape_def)
  next
    case 3
    then show ?thesis
      by (simp add: js_str_esc_Cons js_esc_item_def ih js_single_escape_def
          js_numeric_escape_def)
  next
    case 4
    with c show ?thesis
      by (simp add: js_str_esc_Cons js_esc_item_def read_plain ih)
  qed
qed

text \<open>
  Claim C2. The escaper is meant to make a text fit for a single-quoted string literal,
  so that reading the literal gives the text back. It has no case for the carriage
  return: the text that is one carriage return is copied unchanged, and a literal with
  a carriage return between its quotes is not a string literal, so nothing is read
  back.
\<close>

theorem js_str_esc_carriage_return:
  \<open>js_str_esc [CR] = [CR] \<and> js_read_single_quoted (js_str_esc [CR]) = None\<close>
  by (simp add: js_str_esc_def js_str_esc_iter_def js_esc_item_def)

section \<open>The metadata parser\<close>

text \<open>
  Claim C9. The comment line \<open><!--  foo bar -->\<close>, with two spaces after the opener, gives
  a property whose name is the empty text: the name token matches no character, the
  first space is the separator, and the value is \<open>foo bar\<close>.
\<close>

theorem parse_properties_empty_name:
  \<open>parse_properties ''<!--  foo bar -->'' [] = Some ''foo bar''
   \<and> [] \<in> dom (parse_properties ''<!--  foo bar -->'')\<close>
  by (auto simp: parse_properties_def match_property_def isword_def)

lemma before_blank_line_cut:
  \<open>before_blank_line (pre @ [LF, LF] @ post) = before_blank_line (pre @ [LF, LF])\<close>
  by (induction pre rule: before_blank_line.induct) simp_all

lemma before_blank_line_boundary:
  \<open>before_blank_line (pre @ [LF, LF]) = before_blank_line pre
   \<or> before_blank_line pre = before_blank_line (pre @ [LF, LF]) @ [LF]\<close>
  by (induction pre rule: before_blank_line.induct) auto

lemma split_lines_not_Nil: \<open>split_lines s \<noteq> []\<close>
  by (cases s) (simp_all add: Let_def)

lemma split_lines_snoc_LF: \<open>split_lines (s @ [LF]) = split_lines s @ [[]]\<close>
proof (induction s)
  case Nil
  show ?case by simp
next
  case (Cons c s)
  then show ?case using split_lines_not_Nil [of s] by (simp add: Let_def)
qed

lemma match_property_Nil: \<open>match_property [] = None\<close>
  by (simp add: match_property_def)

text \<open>
  Claim C5. Whatever follows two consecutive line breaks contributes nothing: the
  properties of a text with such a boundary are those of the text in front of it. This
  holds for every text \<open>pre\<close> in front and every text \<open>post\<close> behind; when \<open>pre\<close> has a
  boundary of its own, its properties are already those of the text before the first.
\<close>

theorem parse_properties_stops_at_blank_line:
  \<open>parse_properties (pre @ [LF, LF] @ post) = parse_properties pre\<close>
proof -
  have cut: \<open>before_blank_line (pre @ [LF, LF] @ post) = before_blank_line (pre @ [LF, LF])\<close>
    by (rule before_blank_line_cut)
  from before_blank_line_boundary [of pre] show ?thesis
  proof
    assume \<open>before_blank_line (pre @ [LF, LF]) = before_blank_line pre\<close>
    with cut show ?thesis by (simp add: parse_properties_def)
  next
    assume \<open>before_blank_line pre = before_blank_line (pre @ [LF, LF]) @ [LF]\<close>
    with cut show ?thesis
      by (simp add: parse_properties_def split_lines_snoc_LF match_property_Nil)
  qed
qed

section \<open>Whitespace\<close>

lemma strip_stripped: \<open>stripped s \<Longrightarrow> strip s = s\<close>
proof (cases s)
  case Nil
  then show ?thesis by (simp add: strip_def)
next
  case (Cons c cs)
  assume \<open>stripped s\<close>
  with Cons have h: \<open>\<not> isspace c\<close> and l: \<open>\<not> isspace (last s)\<close>
    by (auto simp: stripped_def)
  from h Cons have 1: \<open>dropWhile isspace s = s\<close> by simp
  from Cons have \<open>rev s = last s # rev (butlast s)\<close>
    by (metis list.distinct(1) rev.simps(2) rev_rev_ident snoc_eq_iff_butlast)
  then have r: \<open>rev s = last s # rev (butlast s)\<close> .
  have \<open>dropWhile isspace (last s # rev (butlast s)) = last s # rev (butlast s)\<close>
    using l by simp
  then have 2: \<open>dropWhile isspace (rev s) = rev s\<close> by (simp only: r)
  show ?thesis by (simp add: strip_def 1 2)
qed

lemma stripped_strip: \<open>stripped (strip s)\<close>
proof (cases \<open>strip s = []\<close>)
  case True
  then show ?thesis by (simp add: stripped_def)
next
  case False
  define t where \<open>t = dropWhile isspace s\<close>
  define u where \<open>u = dropWhile isspace (rev t)\<close>
  have su: \<open>strip s = rev u\<close> by (simp add: strip_def t_def u_def)
  with False have une: \<open>u \<noteq> []\<close> by simp
  then have hu: \<open>\<not> isspace (hd u)\<close> unfolding u_def by (metis hd_dropWhile)
  from une have lastrev: \<open>last (rev u) = hd u\<close> by (simp add: last_rev)
  have \<open>\<exists>v. rev t = v @ u\<close> unfolding u_def by (metis takeWhile_dropWhile_id)
  then obtain v where v: \<open>rev t = v @ u\<close> ..
  then have t: \<open>t = rev u @ rev v\<close> by (metis rev_append rev_rev_ident)
  from une t have tne: \<open>t \<noteq> []\<close> by simp
  then have \<open>\<not> isspace (hd t)\<close> unfolding t_def by (metis hd_dropWhile)
  moreover from t une have \<open>hd t = hd (rev u)\<close> by simp
  ultimately show ?thesis using hu lastrev su une by (simp add: stripped_def)
qed

lemma stripped_append: \<open>stripped a \<Longrightarrow> stripped b \<Longrightarrow> stripped (a @ b)\<close>
  by (cases \<open>a = []\<close>; cases \<open>b = []\<close>) (auto simp: stripped_def)

lemma stripped_concat: \<open>(\<And>x. x \<in> set xs \<Longrightarrow> stripped x) \<Longrightarrow> stripped (concat xs)\<close>
  by (induction xs) (simp_all add: stripped_def[of \<open>[]\<close>] stripped_append)

lemma strip_Nil_iff: \<open>strip s = [] \<longleftrightarrow> (\<forall>c \<in> set s. isspace c)\<close>
proof
  assume \<open>\<forall>c \<in> set s. isspace c\<close>
  then have d: \<open>dropWhile isspace s = []\<close> by simp
  show \<open>strip s = []\<close> unfolding strip_def d by simp
next
  assume \<open>strip s = []\<close>
  then have all: \<open>\<forall>c \<in> set (dropWhile isspace s). isspace c\<close>
    by (simp add: strip_def)
  have \<open>dropWhile isspace s = []\<close>
  proof (rule ccontr)
    assume ne: \<open>dropWhile isspace s \<noteq> []\<close>
    then have \<open>\<not> isspace (hd (dropWhile isspace s))\<close> by (rule hd_dropWhile)
    moreover from ne have \<open>hd (dropWhile isspace s) \<in> set (dropWhile isspace s)\<close> by simp
    ultimately show False using all by blast
  qed
  then show \<open>\<forall>c \<in> set s. isspace c\<close> by simp
qed

section \<open>The template tree compiler\<close>

lemma js_str_esc_before_quote:
  \<open>js_str_esc k @ squote # zs = p @ squote # ws \<Longrightarrow>
   squote \<notin> set p \<Longrightarrow> backslash \<notin> set p \<Longrightarrow> k = p\<close>
proof (induction p arbitrary: k)
  case Nil
  then show ?case
    by (cases k) (auto simp: js_str_esc_Cons js_esc_item_def split: if_splits)
next
  case (Cons x p)
  show ?case
  proof (cases k)
    case Nil
    with Cons.prems show ?thesis by (simp add: js_str_esc_Nil)
  next
    case (Cons c k')
    with Cons.prems have \<open>c = x\<close> and \<open>js_str_esc k' @ squote # zs = p @ squote # ws\<close>
      by (auto simp: js_str_esc_Cons js_esc_item_def split: if_splits)
    moreover from Cons.prems have \<open>squote \<notin> set p\<close> \<open>backslash \<notin> set p\<close> by auto
    ultimately show ?thesis using Cons.IH [of k'] Cons by simp
  qed
qed

lemma attr_key_not_class: \<open>attr_key key \<noteq> ''class''\<close>
  by (simp add: attr_key_def)

text \<open>
  What the attribute loop does with the keys: an element is compiled to the call of
  \<open>$e\<close> with its escaped name, the object literal of its attributes and the list of its
  compiled children; the entry of the attribute \<open>class\<close> starts with the key
  \<open>classList\<close>, the entry of every other attribute with its own escaped key, and no
  entry starts with the key \<open>class\<close>.
\<close>

lemma attr_js_key:
  \<open>html2js (Tag name as cs) =
      ''$e('' @ [squote] @ js_str_esc name @ [squote] @ '',{'' @ concat (map attr_js as)
        @ ''},['' @ concat (map (\<lambda>t. html2js t @ '','') cs) @ ''])''
   \<and> attr_js (''class'', v) =
        [squote] @ ''classList'' @ [squote] @ '':'' @ [squote] @ js_str_esc_value v
          @ [squote] @ '',''
   \<and> (key \<noteq> ''class'' \<longrightarrow>
        attr_js (key, v) =
          [squote] @ js_str_esc key @ [squote] @ '':'' @ [squote] @ js_str_esc_value v
            @ [squote] @ '','')
   \<and> attr_js (key, v) \<noteq> [squote] @ ''class'' @ [squote] @ rest\<close>
proof -
  have \<open>attr_js (key, v) \<noteq> [squote] @ ''class'' @ [squote] @ rest\<close>
  proof
    assume \<open>attr_js (key, v) = [squote] @ ''class'' @ [squote] @ rest\<close>
    then have \<open>js_str_esc (attr_key key) @ squote # ('':'' @ [squote] @ js_str_esc_value v
        @ [squote] @ '','') = ''class'' @ squote # rest\<close>
      by (simp add: attr_js_def)
    then have \<open>attr_key key = ''class''\<close>
      by (rule js_str_esc_before_quote) simp_all
    then show False by (simp add: attr_key_not_class)
  qed
  moreover have \<open>js_str_esc ''classList'' = ''classList''\<close>
    by (simp add: js_str_esc_def js_str_esc_iter_def js_esc_item_def)
  ultimately show ?thesis by (simp add: attr_js_def attr_key_def)
qed

text \<open>
  Claim C6. The key \<open>class\<close> is renamed, but the compiled output can still hold the
  literal key \<open>class\<close>. The tree builder stores the value of \<open>class\<close> as the list of
  its whitespace-separated items, and the escaper, looping over that list, compares a
  whole item with the three one-character strings and appends it as it is. For the
  element \<open><p class="x','class':'y">\<close> the one item closes the string literal of the value
  and opens an entry of its own, so the object literal printed has the keys
  \<open>classList\<close> and \<open>class\<close>. The same text as the value of a single-valued attribute is
  escaped character by character and is read back from its literal.
\<close>

theorem html2js_class_value_not_escaped:
  \<open>html2js (Tag ''p'' [(''class'', StrList [''x','class':'y''])] []) =
     ''$e('p',{'classList':'x','class':'y',},[])''
   \<and> js_str_esc_value (StrList [''x','class':'y'']) = ''x','class':'y''
   \<and> js_read_single_quoted (js_str_esc_value (StrList [''x','class':'y''])) = None
   \<and> js_read_single_quoted (js_str_esc_value (Str ''x','class':'y'')) = Some ''x','class':'y''\<close>
proof -
  have item: \<open>js_str_esc_value (StrList [''x','class':'y'']) = ''x','class':'y''\<close>
    by (simp add: js_str_esc_iter_def js_esc_item_def)
  have out: \<open>html2js (Tag ''p'' [(''class'', StrList [''x','class':'y''])] []) =
     ''$e('p',{'classList':'x','class':'y',},[])''\<close>
    by (simp add: attr_js_def attr_key_def item js_str_esc_def js_str_esc_iter_def
        js_esc_item_def)
  have unread: \<open>js_read_single_quoted ''x','class':'y'' = None\<close>
    by simp
  have read: \<open>js_read_single_quoted (js_str_esc ''x','class':'y'') = Some ''x','class':'y''\<close>
    by (rule js_read_js_str_esc) simp
  from item out unread read show ?thesis by simp
qed


section \<open>The class assembler\<close>

lemma raised_raise: \<open>raised (raise err) = Some err\<close>
  by (simp add: raise_def)

lemma calls_raise: \<open>sassc_calls (raise err) = []\<close>
  by (simp add: raise_def)

lemma printed_raise: \<open>printed (raise err) = []\<close>
  by (simp add: raise_def)

lemma compile_not_one_template:
  \<open>length (find_all (BeautifulSoup e src) ''template'') \<noteq> 1 \<Longrightarrow> compile e src = raise AssertionError\<close>
  by (auto simp: compile_def Let_def split: list.splits)

lemma compile_one_template:
  \<open>find_all (BeautifulSoup e src) ''template'' = [tpl] \<Longrightarrow>
   compile e src =
     (case gather_attributes {} (find_all_script (BeautifulSoup e src) ''attr'') of
        Inl err \<Rightarrow> raise err
      | Inr attributes \<Rightarrow>
          seqs [emit_define (parse_properties src),
                out ''class extends HTMLElement{'',
                emit_constructor e (BeautifulSoup e src) tpl
                  (gather_style e (find_all (BeautifulSoup e src) ''style'')),
                emit_members e (BeautifulSoup e src) attributes])\<close>
  by (simp add: compile_def Let_def)

lemma raised_seqs_not:
  \<open>(\<And>a. a \<in> set steps \<Longrightarrow> raised a \<noteq> Some err) \<Longrightarrow> raised (seqs steps) \<noteq> Some err\<close>
  using raised_seqs [of steps err] by blast

lemma gather_attributes_no_assertion:
  \<open>gather_attributes A ss \<noteq> Inl AssertionError\<close>
  by (induction ss arbitrary: A)
    (auto simp: getitem_def split: sum.splits attr_value.splits option.splits)

lemma sassc_no_assertion: \<open>sassc e style \<noteq> Inl AssertionError\<close>
  by (auto simp: sassc_def split: if_splits run_result.splits option.splits)

lemma emit_define_no_assertion: \<open>raised (emit_define p) \<noteq> Some AssertionError\<close>
  by (auto simp: emit_define_def raise_def out_def split: option.splits)

lemma emit_style_no_assertion: \<open>raised (emit_style e style) \<noteq> Some AssertionError\<close>
  using sassc_no_assertion [of e style]
  by (auto simp: emit_style_def out_def split: if_splits sum.splits)

lemma raised_emit_template: \<open>raised (emit_template tpl) = None\<close>
  by (simp add: emit_template_def out_def)

lemma raised_emit_bodies: \<open>raised (emit_bodies e soup role) = None\<close>
  by (simp add: emit_bodies_def out_def)

lemma emit_constructor_no_assertion:
  \<open>raised (emit_constructor e soup tpl style) \<noteq> Some AssertionError\<close>
  unfolding emit_constructor_def
  by (rule raised_seqs_not)
    (auto simp: raised_out raised_emit_template raised_emit_bodies emit_style_no_assertion)

lemma raised_emit_observed: \<open>raised (emit_observed A) = None\<close>
  by (simp add: emit_observed_def seqs_Cons seqs_Nil raised_seq raised_out)

lemma raised_emit_callback: \<open>raised (emit_callback e soup role header) = None\<close>
  by (simp add: emit_callback_def seqs_Cons seqs_Nil raised_seq raised_out raised_emit_bodies)

lemma emit_accessor_no_assertion:
  \<open>raised (emit_accessor e keyword params t) \<noteq> Some AssertionError\<close>
  by (auto simp: emit_accessor_def getitem_def raise_def seqs_Cons seqs_Nil raised_seq raised_out
      split: sum.splits attr_value.splits option.splits)

lemma emit_attr_branch_no_assertion:
  \<open>raised (emit_attr_branch e s) \<noteq> Some AssertionError\<close>
  by (auto simp: emit_attr_branch_def getitem_def raise_def seqs_Cons seqs_Nil raised_seq raised_out
      split: sum.splits option.splits)

lemma emit_attribute_changed_no_assertion:
  \<open>raised (emit_attribute_changed e soup A) \<noteq> Some AssertionError\<close>
proof (cases \<open>A = {}\<close>)
  case True
  then show ?thesis by (simp add: emit_attribute_changed_def raised_out)
next
  case False
  have \<open>raised (seqs (map (emit_attr_branch e) (find_all_script soup ''attr''))) \<noteq> Some AssertionError\<close>
    by (rule raised_seqs_not) (auto simp: emit_attr_branch_no_assertion)
  with False show ?thesis
    by (auto simp: emit_attribute_changed_def seqs_Cons seqs_Nil raised_seq raised_out
        split: option.splits)
qed

lemma emit_members_no_assertion:
  \<open>raised (emit_members e soup A) \<noteq> Some AssertionError\<close>
proof -
  have g: \<open>raised (seqs (map (emit_accessor e ''get '' ''(){'') (find_all_script soup ''getter'')))
      \<noteq> Some AssertionError\<close>
    by (rule raised_seqs_not) (auto simp: emit_accessor_no_assertion)
  have s: \<open>raised (seqs (map (emit_accessor e ''set '' ''(value){'') (find_all_script soup ''setter'')))
      \<noteq> Some AssertionError\<close>
    by (rule raised_seqs_not) (auto simp: emit_accessor_no_assertion)
  show ?thesis
    unfolding emit_members_def
    by (rule raised_seqs_not)
      (auto simp: raised_out raised_emit_observed raised_emit_callback g s
        emit_attribute_changed_no_assertion)
qed

lemma raised_compile_one_template:
  assumes \<open>find_all (BeautifulSoup e src) ''template'' = [tpl]\<close>
  shows \<open>raised (compile e src) \<noteq> Some AssertionError\<close>
proof (cases \<open>gather_attributes {} (find_all_script (BeautifulSoup e src) ''attr'')\<close>)
  case (Inl err)
  with gather_attributes_no_assertion [of \<open>{}\<close> \<open>find_all_script (BeautifulSoup e src) ''attr''\<close>]
  have \<open>err \<noteq> AssertionError\<close> by auto
  with Inl assms show ?thesis
    by (simp add: compile_one_template raised_raise)
next
  case (Inr A)
  have \<open>raised (seqs [emit_define (parse_properties src),
                out ''class extends HTMLElement{'',
                emit_constructor e (BeautifulSoup e src) tpl
                  (gather_style e (find_all (BeautifulSoup e src) ''style'')),
                emit_members e (BeautifulSoup e src) A]) \<noteq> Some AssertionError\<close>
    by (rule raised_seqs_not)
      (auto simp: raised_out emit_define_no_assertion emit_constructor_no_assertion
        emit_members_no_assertion)
  with Inr assms show ?thesis
    by (simp add: compile_one_template)
qed

text \<open>
  Claim C1. When the parsed document has no template element, or two or more, the
  assertion fails: \<open>compile\<close> raises \<open>AssertionError\<close>, with nothing printed. When it has
  exactly one, \<open>compile\<close> goes on past the assertion: whatever it raises later is no
  \<open>AssertionError\<close>.
\<close>

theorem compile_template_count:
  \<open>(length (find_all (BeautifulSoup e src) ''template'') \<noteq> 1 \<longrightarrow>
      compile e src = \<lparr>printed = [], sassc_calls = [], raised = Some AssertionError\<rparr>)
   \<and> (length (find_all (BeautifulSoup e src) ''template'') = 1 \<longrightarrow>
      raised (compile e src) \<noteq> Some AssertionError)\<close>
proof (intro conjI impI)
  assume \<open>length (find_all (BeautifulSoup e src) ''template'') \<noteq> 1\<close>
  then show \<open>compile e src = \<lparr>printed = [], sassc_calls = [], raised = Some AssertionError\<rparr>\<close>
    by (simp add: compile_not_one_template raise_def)
next
  assume \<open>length (find_all (BeautifulSoup e src) ''template'') = 1\<close>
  then obtain tpl where \<open>find_all (BeautifulSoup e src) ''template'' = [tpl]\<close>
    by (auto simp: length_Suc_conv)
  then show \<open>raised (compile e src) \<noteq> Some AssertionError\<close>
    by (rule raised_compile_one_template)
qed


theorem compile_template_count_witness:
  \<open>length (find_all (BeautifulSoup (no_sassc two_templates_doc) widget_src) ''template'') \<noteq> 1
   \<and> compile (no_sassc two_templates_doc) widget_src =
       \<lparr>printed = [], sassc_calls = [], raised = Some AssertionError\<rparr>
   \<and> length (find_all (BeautifulSoup (no_sassc widget_doc) widget_src) ''template'') = 1
   \<and> raised (compile (no_sassc widget_doc) widget_src) \<noteq> Some AssertionError\<close>
  using compile_template_count [of \<open>no_sassc two_templates_doc\<close> widget_src]
    compile_template_count [of \<open>no_sassc widget_doc\<close> widget_src]
  by (simp add: no_sassc_def two_templates_doc_def widget_doc_def find_all_def)

section \<open>What is handed to the style preprocessor\<close>

lemma gather_style_concat:
  \<open>gather_style e styles = concat (map (\<lambda>s. strip (decode_contents e s)) styles)\<close>
  by (simp add: gather_style_def foldl_append_items)

lemma stripped_gather_style: \<open>stripped (gather_style e styles)\<close>
  unfolding gather_style_concat by (rule stripped_concat) (auto simp: stripped_strip)

lemma calls_emit_define: \<open>sassc_calls (emit_define p) = []\<close>
  by (simp add: emit_define_def raise_def out_def split: option.splits)

lemma raised_emit_define: \<open>raised (emit_define p) = None \<longleftrightarrow> p ''name'' \<noteq> None\<close>
  by (auto simp: emit_define_def raise_def out_def split: option.splits)

lemma calls_emit_style:
  \<open>sassc_calls (emit_style e style) = (if style \<noteq> [] then [style] else [])\<close>
  by (simp add: emit_style_def out_def split: sum.splits)

lemma calls_emit_template: \<open>sassc_calls (emit_template tpl) = []\<close>
  by (simp add: emit_template_def out_def)

lemma calls_emit_bodies: \<open>sassc_calls (emit_bodies e soup role) = []\<close>
  by (simp add: emit_bodies_def out_def)

lemma calls_emit_constructor:
  \<open>sassc_calls (emit_constructor e soup tpl style) = (if style \<noteq> [] then [style] else [])\<close>
  by (simp add: emit_constructor_def seqs_Cons seqs_Nil calls_seq calls_out raised_out
      calls_emit_style calls_emit_template calls_emit_bodies raised_emit_template
      raised_emit_bodies)

lemma calls_emit_accessor: \<open>sassc_calls (emit_accessor e keyword params t) = []\<close>
  by (simp add: emit_accessor_def raise_def seqs_Cons seqs_Nil calls_seq calls_out
      split: sum.splits attr_value.splits)

lemma calls_emit_attr_branch: \<open>sassc_calls (emit_attr_branch e s) = []\<close>
  by (simp add: emit_attr_branch_def raise_def seqs_Cons seqs_Nil calls_seq calls_out
      split: sum.splits)

lemma calls_emit_members: \<open>sassc_calls (emit_members e soup A) = []\<close>
proof -
  have 1: \<open>sassc_calls (seqs (map (emit_accessor e k p) ts)) = []\<close> for k p ts
    by (rule calls_seqs) (auto simp: calls_emit_accessor)
  have 2: \<open>sassc_calls (seqs (map (emit_attr_branch e) ts)) = []\<close> for ts
    by (rule calls_seqs) (auto simp: calls_emit_attr_branch)
  have 3: \<open>sassc_calls (emit_attribute_changed e soup A) = []\<close>
    by (cases \<open>A = {}\<close>)
      (simp_all add: emit_attribute_changed_def calls_out 2 seqs_Cons seqs_Nil calls_seq)
  have 4: \<open>sassc_calls (emit_observed A) = []\<close>
    unfolding emit_observed_def by (auto simp: calls_out intro!: calls_seqs)
  have 5: \<open>sassc_calls (emit_callback e soup role header) = []\<close> for role header
    unfolding emit_callback_def by (auto simp: calls_out calls_emit_bodies intro!: calls_seqs)
  show ?thesis
    unfolding emit_members_def by (rule calls_seqs) (auto simp: calls_out 1 3 4 5)
qed

lemma calls_compile:
  \<open>sassc_calls (compile e src) =
     (if length (find_all (BeautifulSoup e src) ''template'') = 1
         \<and> \<not> isl (gather_attributes {} (find_all_script (BeautifulSoup e src) ''attr''))
         \<and> parse_properties src ''name'' \<noteq> None
         \<and> gather_style e (find_all (BeautifulSoup e src) ''style'') \<noteq> []
      then [gather_style e (find_all (BeautifulSoup e src) ''style'')] else [])\<close>
proof (cases \<open>length (find_all (BeautifulSoup e src) ''template'') = 1\<close>)
  case False
  then show ?thesis by (simp add: compile_not_one_template calls_raise)
next
  case True
  then obtain tpl where tpl: \<open>find_all (BeautifulSoup e src) ''template'' = [tpl]\<close>
    by (auto simp: length_Suc_conv)
  show ?thesis
  proof (cases \<open>gather_attributes {} (find_all_script (BeautifulSoup e src) ''attr'')\<close>)
    case (Inl err)
    with tpl show ?thesis by (simp add: compile_one_template calls_raise)
  next
    case (Inr A)
    with tpl show ?thesis
      by (simp add: compile_one_template seqs_Cons seqs_Nil calls_seq calls_out raised_out
          calls_emit_define raised_emit_define calls_emit_constructor calls_emit_members)
  qed
qed

lemma printed_emit_define:
  \<open>p ''name'' = Some name \<Longrightarrow>
   emit_define p = out (''customElements.define('' @ [squote] @ name @ [squote] @ '','')\<close>
  by (simp add: emit_define_def)

lemma emit_style_ok:
  assumes \<open>style \<noteq> [] \<longrightarrow> sassc e style = Inr css\<close>
  shows \<open>raised (emit_style e style) = None\<close>
    and \<open>printed (emit_style e style) =
      (if style \<noteq> []
       then ''this.shadow.append($e('style', {}, ['' @ [squote] @ js_str_esc css @ [squote]
              @ '']));''
       else [])\<close>
  using assms by (simp_all add: emit_style_def out_def)

lemma printed_emit_template:
  \<open>printed (emit_template tpl) =
     concat (map (\<lambda>t. ''this.shadow.append('' @ html2js t @ '');'') (contents tpl))\<close>
  by (simp add: emit_template_def out_def)

lemma printed_emit_bodies:
  \<open>printed (emit_bodies e soup role) = concat (map (decode_contents e) (find_all_script soup role))\<close>
  by (simp add: emit_bodies_def out_def)

lemma emit_constructor_ok:
  assumes \<open>style \<noteq> [] \<longrightarrow> sassc e style = Inr css\<close>
  shows \<open>raised (emit_constructor e soup tpl style) = None\<close>
    and \<open>printed (emit_constructor e soup tpl style) =
      ''constructor(){'' @ ''super();''
      @ ''this.shadow = this.attachShadow({'mode':'open'});''
      @ (if style \<noteq> []
         then ''this.shadow.append($e('style', {}, ['' @ [squote] @ js_str_esc css @ [squote]
                @ '']));''
         else [])
      @ concat (map (\<lambda>t. ''this.shadow.append('' @ html2js t @ '');'') (contents tpl))
      @ concat (map (decode_contents e) (find_all_script soup ''constructor''))
      @ ''}''\<close>
proof -
  note st = emit_style_ok [OF assms]
  show \<open>raised (emit_constructor e soup tpl style) = None\<close>
    by (simp add: emit_constructor_def seqs_Cons seqs_Nil raised_seq raised_out st(1)
        raised_emit_template raised_emit_bodies)
  show \<open>printed (emit_constructor e soup tpl style) =
      ''constructor(){'' @ ''super();''
      @ ''this.shadow = this.attachShadow({'mode':'open'});''
      @ (if style \<noteq> []
         then ''this.shadow.append($e('style', {}, ['' @ [squote] @ js_str_esc css @ [squote]
                @ '']));''
         else [])
      @ concat (map (\<lambda>t. ''this.shadow.append('' @ html2js t @ '');'') (contents tpl))
      @ concat (map (decode_contents e) (find_all_script soup ''constructor''))
      @ ''}''\<close>
    unfolding emit_constructor_def seqs_Cons seqs_Nil
    by (simp add: printed_seq raised_seq raised_out st raised_emit_template raised_emit_bodies
        printed_out printed_emit_template printed_emit_bodies)
qed

section \<open>The example documents\<close>

lemma widget_name: \<open>parse_properties widget_src ''name'' = Some ''my-widget''\<close>
  by (simp add: widget_src_def parse_properties_def match_property_def isword_def)

lemma widget_template:
  \<open>find_all widget_doc ''template'' =
     [Tag ''template'' []
        [Tag ''span'' [(''class'', StrList [''a'', ''b''])] [NavigableString ''hi'']]]\<close>
  by (simp add: widget_doc_def find_all_def)

lemma widget_styles:
  \<open>find_all widget_doc ''style'' =
     [Tag ''style'' [] [NavigableString ''a ''], Tag ''style'' [] [NavigableString ''b'']]\<close>
  by (simp add: widget_doc_def find_all_def)

lemma widget_attributes:
  \<open>gather_attributes {} (find_all_script widget_doc ''attr'') = Inr {''alpha'', ''value''}\<close>
  by (auto simp: widget_doc_def find_all_def find_all_script_def has_event_def getitem_def)

lemma soup_no_sassc: \<open>BeautifulSoup (no_sassc doc) src = doc\<close>
  and soup_failing_sassc: \<open>BeautifulSoup (failing_sassc doc) src = doc\<close>
  and soup_vanished_sassc: \<open>BeautifulSoup (vanished_sassc doc) src = doc\<close>
  by (simp_all add: no_sassc_def failing_sassc_def vanished_sassc_def)

lemma widget_gather_style:
  \<open>gather_style (no_sassc doc) (find_all widget_doc ''style'') = ''ab''\<close>
  \<open>gather_style (failing_sassc doc) (find_all widget_doc ''style'') = ''ab''\<close>
  \<open>gather_style (vanished_sassc doc) (find_all widget_doc ''style'') = ''ab''\<close>
  by (simp_all add: widget_styles gather_style_concat text_contents_def strip_def isspace_def
      no_sassc_def failing_sassc_def vanished_sassc_def)

section \<open>Style text\<close>

text \<open>
  Claim C4, as the code has it. The style text is the concatenation, in source order,
  of the inner texts of the style elements, each trimmed on its own: whitespace between
  two style elements' texts is removed, not kept. That text, when it is not empty and
  the run reaches the constructor, is the one argument \<open>sassc\<close> is called with, and
  without the executable it is passed through unchanged.
\<close>

theorem gather_style_handed_to_sassc:
  \<open>gather_style e styles = concat (map (\<lambda>s. strip (decode_contents e s)) styles)
   \<and> sassc_calls (compile e src) =
       (if length (find_all (BeautifulSoup e src) ''template'') = 1
           \<and> \<not> isl (gather_attributes {} (find_all_script (BeautifulSoup e src) ''attr''))
           \<and> parse_properties src ''name'' \<noteq> None
           \<and> gather_style e (find_all (BeautifulSoup e src) ''style'') \<noteq> []
        then [gather_style e (find_all (BeautifulSoup e src) ''style'')] else [])
   \<and> (\<not> sassc_available e \<longrightarrow> sassc e (gather_style e styles) = Inr (gather_style e styles))\<close>
  by (simp add: gather_style_concat [symmetric] calls_compile sassc_def strip_stripped
      stripped_gather_style)

theorem gather_style_handed_to_sassc_witness:
  \<open>\<not> sassc_available (no_sassc widget_doc)
   \<and> sassc (no_sassc widget_doc) (gather_style (no_sassc widget_doc) (find_all widget_doc ''style''))
       = Inr ''ab''
   \<and> sassc_calls (compile (no_sassc widget_doc) widget_src) = [''ab'']\<close>
proof -
  have 1: \<open>\<not> sassc_available (no_sassc widget_doc)\<close>
    by (simp add: sassc_available_def no_sassc_def)
  have 2: \<open>length (find_all (BeautifulSoup (no_sassc widget_doc) widget_src) ''template'') = 1
      \<and> \<not> isl (gather_attributes {} (find_all_script (BeautifulSoup (no_sassc widget_doc) widget_src) ''attr''))
      \<and> parse_properties widget_src ''name'' \<noteq> None
      \<and> gather_style (no_sassc widget_doc) (find_all (BeautifulSoup (no_sassc widget_doc) widget_src) ''style'') \<noteq> []\<close>
    by (simp add: soup_no_sassc widget_template widget_attributes widget_name widget_gather_style)
  note t = gather_style_handed_to_sassc [of \<open>no_sassc widget_doc\<close> \<open>find_all widget_doc ''style''\<close> widget_src]
  from t [THEN conjunct2, THEN conjunct1] 2
  have calls: \<open>sassc_calls (compile (no_sassc widget_doc) widget_src) =
      [gather_style (no_sassc widget_doc)
         (find_all (BeautifulSoup (no_sassc widget_doc) widget_src) ''style'')]\<close>
    by simp
  from t [THEN conjunct2, THEN conjunct2] 1
  have pass: \<open>sassc (no_sassc widget_doc) (gather_style (no_sassc widget_doc) (find_all widget_doc ''style''))
      = Inr (gather_style (no_sassc widget_doc) (find_all widget_doc ''style''))\<close>
    by simp
  from 1 calls pass show ?thesis
    by (simp add: soup_no_sassc widget_gather_style)
qed

text \<open>
  The claim as stated fails: for the style elements with the texts \<open>a \<close> and \<open>b\<close>, the
  text handed over is \<open>ab\<close>, while the trimmed concatenation of the inner texts is
  \<open>a b\<close>.
\<close>

theorem style_trim_counterexample:
  \<open>sassc_calls (compile (no_sassc widget_doc) widget_src) = [''ab'']
   \<and> strip (concat (map (decode_contents (no_sassc widget_doc))
        (find_all (BeautifulSoup (no_sassc widget_doc) widget_src) ''style''))) = ''a b''
   \<and> sassc_calls (compile (no_sassc widget_doc) widget_src) \<noteq>
       [strip (concat (map (decode_contents (no_sassc widget_doc))
          (find_all (BeautifulSoup (no_sassc widget_doc) widget_src) ''style'')))]\<close>
  by code_simp

text \<open>
  Claim C10. When the inner text of every style element is whitespace only, the style
  text is empty: \<open>sassc\<close> is not called during the run, the style step prints nothing,
  and the constructor goes from the shadow-root attachment straight to the template.
\<close>

theorem blank_styles_no_sassc:
  assumes \<open>\<forall>s \<in> set (find_all (BeautifulSoup e src) ''style'').
             \<forall>c \<in> set (decode_contents e s). isspace c\<close>
  shows \<open>gather_style e (find_all (BeautifulSoup e src) ''style'') = []
    \<and> sassc_calls (compile e src) = []
    \<and> emit_style e (gather_style e (find_all (BeautifulSoup e src) ''style'')) = out []
    \<and> emit_constructor e soup tpl (gather_style e (find_all (BeautifulSoup e src) ''style'')) =
        out (''constructor(){'' @ ''super();''
             @ ''this.shadow = this.attachShadow({'mode':'open'});''
             @ concat (map (\<lambda>t. ''this.shadow.append('' @ html2js t @ '');'') (contents tpl))
             @ concat (map (decode_contents e) (find_all_script soup ''constructor''))
             @ ''}'')\<close>
proof -
  have nil: \<open>gather_style e (find_all (BeautifulSoup e src) ''style'') = []\<close>
    using assms by (simp add: gather_style_concat strip_Nil_iff)
  have \<open>emit_constructor e soup tpl [] =
        out (''constructor(){'' @ ''super();''
             @ ''this.shadow = this.attachShadow({'mode':'open'});''
             @ concat (map (\<lambda>t. ''this.shadow.append('' @ html2js t @ '');'') (contents tpl))
             @ concat (map (decode_contents e) (find_all_script soup ''constructor''))
             @ ''}'')\<close>
    by (simp add: emit_constructor_def emit_style_def emit_template_def emit_bodies_def
        seqs_Cons seqs_Nil seq_out_out)
  with nil show ?thesis by (simp add: calls_compile emit_style_def)
qed

theorem blank_styles_no_sassc_witness:
  \<open>find_all (BeautifulSoup (failing_sassc blank_style_doc) widget_src) ''style'' =
     [Tag ''style'' [] [NavigableString [CHR '' '', LF]]]
   \<and> decode_contents (failing_sassc blank_style_doc)
        (Tag ''style'' [] [NavigableString [CHR '' '', LF]]) = [CHR '' '', LF]
   \<and> isspace (CHR '' '') \<and> isspace LF
   \<and> sassc_available (failing_sassc blank_style_doc)
   \<and> sassc_calls (compile (failing_sassc blank_style_doc) widget_src) = []
   \<and> emit_style (failing_sassc blank_style_doc)
        (gather_style (failing_sassc blank_style_doc)
           (find_all (BeautifulSoup (failing_sassc blank_style_doc) widget_src) ''style'')) = out []\<close>
proof -
  have f: \<open>find_all (BeautifulSoup (failing_sassc blank_style_doc) widget_src) ''style'' =
     [Tag ''style'' [] [NavigableString [CHR '' '', LF]]]\<close>
    by (simp add: failing_sassc_def blank_style_doc_def find_all_def)
  have d: \<open>decode_contents (failing_sassc blank_style_doc)
        (Tag ''style'' [] [NavigableString [CHR '' '', LF]]) = [CHR '' '', LF]\<close>
    by (simp add: failing_sassc_def text_contents_def)
  have w: \<open>isspace (CHR '' '') \<and> isspace LF\<close>
    by (simp add: isspace_def)
  have h: \<open>\<forall>s \<in> set (find_all (BeautifulSoup (failing_sassc blank_style_doc) widget_src) ''style'').
       \<forall>c \<in> set (decode_contents (failing_sassc blank_style_doc) s). isspace c\<close>
    using w by (simp add: f d)
  have a: \<open>sassc_available (failing_sassc blank_style_doc)\<close>
    by (simp add: sassc_available_def failing_sassc_def)
  from blank_styles_no_sassc [OF h] f d w a show ?thesis by blast
qed

section \<open>The constructor\<close>

text \<open>
  Claim C7. In a run that reaches the end of the constructor, the text printed for it
  is, in this order: the opening with the call of \<open>super\<close>, the attachment of the open
  shadow root, the style construction with the preprocessed style text when the style
  text is not empty and nothing otherwise, one \<open>append\<close> of the compiled node for each
  child of the template, the bodies of the script elements of the role \<open>constructor\<close> in
  source order, and the closing brace. It follows the registration line and the class
  opening, and the members follow it.
\<close>

theorem constructor_order:
  assumes \<open>find_all (BeautifulSoup e src) ''template'' = [tpl]\<close>
    and \<open>gather_attributes {} (find_all_script (BeautifulSoup e src) ''attr'') = Inr attributes\<close>
    and \<open>parse_properties src ''name'' = Some name\<close>
    and \<open>style = gather_style e (find_all (BeautifulSoup e src) ''style'')\<close>
    and \<open>style \<noteq> [] \<longrightarrow> sassc e style = Inr css\<close>
  shows \<open>printed (compile e src) =
      ''customElements.define('' @ [squote] @ name @ [squote] @ '',''
      @ ''class extends HTMLElement{''
      @ (''constructor(){'' @ ''super();''
         @ ''this.shadow = this.attachShadow({'mode':'open'});''
         @ (if style \<noteq> []
            then ''this.shadow.append($e('style', {}, ['' @ [squote] @ js_str_esc css @ [squote]
                   @ '']));''
            else [])
         @ concat (map (\<lambda>t. ''this.shadow.append('' @ html2js t @ '');'') (contents tpl))
         @ concat (map (decode_contents e) (find_all_script (BeautifulSoup e src) ''constructor''))
         @ ''}'')
      @ printed (emit_members e (BeautifulSoup e src) attributes)\<close>
proof -
  note con = emit_constructor_ok [OF assms(5), of \<open>BeautifulSoup e src\<close> tpl]
  have \<open>compile e src =
      seqs [emit_define (parse_properties src), out ''class extends HTMLElement{'',
            emit_constructor e (BeautifulSoup e src) tpl style,
            emit_members e (BeautifulSoup e src) attributes]\<close>
    using assms(1,2,4) by (simp add: compile_one_template)
  then have \<open>printed (compile e src) =
      printed (emit_define (parse_properties src)) @ ''class extends HTMLElement{''
      @ printed (emit_constructor e (BeautifulSoup e src) tpl style)
      @ printed (emit_members e (BeautifulSoup e src) attributes)\<close>
    using assms(3)
    by (simp add: seqs_Cons seqs_Nil printed_seq raised_seq raised_out printed_out
        raised_emit_define con(1))
  then show ?thesis
    using assms(3) by (simp add: con(2) printed_emit_define printed_out)
qed

theorem constructor_order_witness:
  \<open>find_all (BeautifulSoup (no_sassc widget_doc) widget_src) ''template'' =
     [Tag ''template'' []
        [Tag ''span'' [(''class'', StrList [''a'', ''b''])] [NavigableString ''hi'']]]
   \<and> gather_attributes {} (find_all_script (BeautifulSoup (no_sassc widget_doc) widget_src) ''attr'')
      = Inr {''alpha'', ''value''}
   \<and> parse_properties widget_src ''name'' = Some ''my-widget''
   \<and> sassc (no_sassc widget_doc) ''ab'' = Inr ''ab''
   \<and> printed (compile (no_sassc widget_doc) widget_src) =
       ''customElements.define('my-widget',class extends HTMLElement{''
       @ ''constructor(){super();this.shadow = this.attachShadow({'mode':'open'});''
       @ ''this.shadow.append($e('style', {}, ['ab']));''
       @ ''this.shadow.append($e('span',{'classList':'ab',},["hi",]));''
       @ ''}''
       @ printed (emit_members (no_sassc widget_doc) widget_doc {''alpha'', ''value''})\<close>
proof -
  have 1: \<open>find_all (BeautifulSoup (no_sassc widget_doc) widget_src) ''template'' =
     [Tag ''template'' []
        [Tag ''span'' [(''class'', StrList [''a'', ''b''])] [NavigableString ''hi'']]]\<close>
    by (simp add: soup_no_sassc widget_template)
  have 2: \<open>gather_attributes {} (find_all_script (BeautifulSoup (no_sassc widget_doc) widget_src) ''attr'')
      = Inr {''alpha'', ''value''}\<close>
    by (simp add: soup_no_sassc widget_attributes)
  have 4: \<open>''ab'' = gather_style (no_sassc widget_doc)
      (find_all (BeautifulSoup (no_sassc widget_doc) widget_src) ''style'')\<close>
    by (simp add: soup_no_sassc widget_gather_style)
  have 5: \<open>''ab'' \<noteq> [] \<longrightarrow> sassc (no_sassc widget_doc) ''ab'' = Inr ''ab''\<close>
    by (simp add: sassc_def sassc_available_def no_sassc_def strip_def isspace_def)
  have cons: \<open>find_all_script widget_doc ''constructor'' = []\<close>
    by (simp add: widget_doc_def find_all_def find_all_script_def has_event_def)
  from constructor_order [OF 1 2 widget_name 4 5] 1 2 widget_name 5 show ?thesis
    by (simp add: soup_no_sassc cons attr_js_def attr_key_def js_str_esc_def
        js_str_esc_iter_def js_esc_item_def)
qed

section \<open>Failure of the style preprocessor\<close>

text \<open>
  Claim C8, as the code has it. With the executable found when the module was loaded
  and a style text that is not empty, the run is fatal exactly when the invocation
  itself raises: when the executable cannot be started, or when its output is not valid
  UTF-8, \<open>compile\<close> raises that error, having printed the text up to the shadow-root
  attachment and nothing after it. The exit status is not looked at: when the tool
  exits, with any status, its trimmed output is the style text of the construction,
  and no error is raised there.
\<close>

theorem sassc_failure:
  assumes \<open>sassc_available e\<close>
    and \<open>find_all (BeautifulSoup e src) ''template'' = [tpl]\<close>
    and \<open>gather_attributes {} (find_all_script (BeautifulSoup e src) ''attr'') = Inr attributes\<close>
    and \<open>parse_properties src ''name'' = Some name\<close>
    and \<open>style = gather_style e (find_all (BeautifulSoup e src) ''style'')\<close>
    and \<open>style \<noteq> []\<close>
  shows \<open>(run_sassc e style = Raises_OSError \<longrightarrow>
            compile e src =
              \<lparr>printed = ''customElements.define('' @ [squote] @ name @ [squote] @ '',''
                   @ ''class extends HTMLElement{'' @ ''constructor(){'' @ ''super();''
                   @ ''this.shadow = this.attachShadow({'mode':'open'});'',
               sassc_calls = [style], raised = Some OSError\<rparr>)
     \<and> (run_sassc e style = Completed returncode None \<longrightarrow>
            compile e src =
              \<lparr>printed = ''customElements.define('' @ [squote] @ name @ [squote] @ '',''
                   @ ''class extends HTMLElement{'' @ ''constructor(){'' @ ''super();''
                   @ ''this.shadow = this.attachShadow({'mode':'open'});'',
               sassc_calls = [style], raised = Some UnicodeDecodeError\<rparr>)
     \<and> (run_sassc e style = Completed returncode (Some css) \<longrightarrow>
            emit_style e style =
              \<lparr>printed = ''this.shadow.append($e('style', {}, ['' @ [squote]
                   @ js_str_esc (strip css) @ [squote] @ '']));'',
               sassc_calls = [style], raised = None\<rparr>)\<close>
proof -
  have c: \<open>compile e src =
      seqs [emit_define (parse_properties src), out ''class extends HTMLElement{'',
            emit_constructor e (BeautifulSoup e src) tpl style,
            emit_members e (BeautifulSoup e src) attributes]\<close>
    using assms(2,3,5) by (simp add: compile_one_template)
  have fatal: \<open>compile e src =
      \<lparr>printed = ''customElements.define('' @ [squote] @ name @ [squote] @ '',''
           @ ''class extends HTMLElement{'' @ ''constructor(){'' @ ''super();''
           @ ''this.shadow = this.attachShadow({'mode':'open'});'',
       sassc_calls = [style], raised = Some err\<rparr>\<close>
    if \<open>sassc e style = Inl err\<close> for err
    using that assms(4,6)
    by (simp add: c seqs_Cons seqs_Nil printed_emit_define emit_constructor_def emit_style_def
        seq_def out_def)
  show ?thesis
  proof (intro conjI impI)
    assume \<open>run_sassc e style = Raises_OSError\<close>
    with assms(1) have \<open>sassc e style = Inl OSError\<close> by (simp add: sassc_def)
    then show \<open>compile e src =
      \<lparr>printed = ''customElements.define('' @ [squote] @ name @ [squote] @ '',''
           @ ''class extends HTMLElement{'' @ ''constructor(){'' @ ''super();''
           @ ''this.shadow = this.attachShadow({'mode':'open'});'',
       sassc_calls = [style], raised = Some OSError\<rparr>\<close>
      by (rule fatal)
  next
    assume \<open>run_sassc e style = Completed returncode None\<close>
    with assms(1) have \<open>sassc e style = Inl UnicodeDecodeError\<close> by (simp add: sassc_def)
    then show \<open>compile e src =
      \<lparr>printed = ''customElements.define('' @ [squote] @ name @ [squote] @ '',''
           @ ''class extends HTMLElement{'' @ ''constructor(){'' @ ''super();''
           @ ''this.shadow = this.attachShadow({'mode':'open'});'',
       sassc_calls = [style], raised = Some UnicodeDecodeError\<rparr>\<close>
      by (rule fatal)
  next
    assume \<open>run_sassc e style = Completed returncode (Some css)\<close>
    with assms(1,6) show \<open>emit_style e style =
              \<lparr>printed = ''this.shadow.append($e('style', {}, ['' @ [squote]
                   @ js_str_esc (strip css) @ [squote] @ '']));'',
               sassc_calls = [style], raised = None\<rparr>\<close>
      by (simp add: emit_style_def sassc_def)
  qed
qed

theorem sassc_failure_witness:
  \<open>sassc_available (vanished_sassc widget_doc)
   \<and> run_sassc (vanished_sassc widget_doc) ''ab'' = Raises_OSError
   \<and> compile (vanished_sassc widget_doc) widget_src =
       \<lparr>printed = ''customElements.define('my-widget',class extends HTMLElement{''
            @ ''constructor(){super();this.shadow = this.attachShadow({'mode':'open'});'',
        sassc_calls = [''ab''], raised = Some OSError\<rparr>\<close>
proof -
  have 1: \<open>sassc_available (vanished_sassc widget_doc)\<close>
    by (simp add: sassc_available_def vanished_sassc_def)
  have 2: \<open>find_all (BeautifulSoup (vanished_sassc widget_doc) widget_src) ''template'' =
     [Tag ''template'' []
        [Tag ''span'' [(''class'', StrList [''a'', ''b''])] [NavigableString ''hi'']]]\<close>
    by (simp add: soup_vanished_sassc widget_template)
  have 3: \<open>gather_attributes {} (find_all_script (BeautifulSoup (vanished_sassc widget_doc) widget_src) ''attr'')
      = Inr {''alpha'', ''value''}\<close>
    by (simp add: soup_vanished_sassc widget_attributes)
  have 5: \<open>''ab'' = gather_style (vanished_sassc widget_doc)
      (find_all (BeautifulSoup (vanished_sassc widget_doc) widget_src) ''style'')\<close>
    by (simp add: soup_vanished_sassc widget_gather_style)
  have 6: \<open>''ab'' \<noteq> []\<close> by simp
  have 7: \<open>run_sassc (vanished_sassc widget_doc) ''ab'' = Raises_OSError\<close>
    by (simp add: vanished_sassc_def)
  from sassc_failure [OF 1 2 3 widget_name 5 6, of 0 \<open>[]\<close>] 1 7 show ?thesis by simp
qed

text \<open>
  The claim as stated fails: with a tool that exits with status 1 and no output, the run
  raises nothing.
\<close>

theorem sassc_exit_status_counterexample:
  \<open>sassc_available (failing_sassc widget_doc)
   \<and> sassc_calls (compile (failing_sassc widget_doc) widget_src) = [''ab'']
   \<and> run_sassc (failing_sassc widget_doc) ''ab'' = Completed 1 (Some [])
   \<and> raised (compile (failing_sassc widget_doc) widget_src) = None\<close>
  by code_simp

section \<open>Observed attributes\<close>

lemma gather_attributes_Inr:
  \<open>gather_attributes A0 ss = Inr A \<Longrightarrow>
   A = A0 \<union> {a. \<exists>s \<in> set ss. getitem s ''attr'' = Inr (Str a)}\<close>
proof (induction ss arbitrary: A0)
  case Nil
  then show ?case by simp
next
  case (Cons s ss)
  then show ?case
    by (auto split: sum.splits attr_value.splits)
qed

lemma gather_attributes_finite:
  \<open>gather_attributes A0 ss = Inr A \<Longrightarrow> finite A0 \<Longrightarrow> finite A\<close>
  by (induction ss arbitrary: A0) (auto split: sum.splits attr_value.splits)

lemma gather_attributes_not_empty:
  \<open>gather_attributes A0 ss = Inr A \<Longrightarrow> ss \<noteq> [] \<Longrightarrow> A \<noteq> {}\<close>
  by (cases ss) (auto split: sum.splits attr_value.splits dest!: gather_attributes_Inr)

text \<open>
  Claim C3. When every script element of the role \<open>attr\<close> names its attribute, the list
  printed for \<open>observedAttributes\<close> is sorted ascending, has no duplicates and holds
  exactly the names that the elements declare, however many elements declare the same
  name; it is printed whenever there is such an element.
\<close>

theorem observed_attributes_sorted_distinct:
  assumes \<open>gather_attributes {} (find_all_script soup ''attr'') = Inr attributes\<close>
  shows \<open>sorted (observed_attributes attributes)
    \<and> distinct (observed_attributes attributes)
    \<and> set (observed_attributes attributes) =
        {a. \<exists>s \<in> set (find_all_script soup ''attr''). getitem s ''attr'' = Inr (Str a)}
    \<and> (find_all_script soup ''attr'' \<noteq> [] \<longrightarrow>
        emit_observed attributes =
          out (''static get observedAttributes(){return''
               @ json_dumps (observed_attributes attributes) @ '';}''))\<close>
proof -
  have fin: \<open>finite attributes\<close>
    using assms by (rule gather_attributes_finite) simp
  have ne: \<open>attributes \<noteq> {}\<close> if \<open>find_all_script soup ''attr'' \<noteq> []\<close>
    using assms that by (rule gather_attributes_not_empty)
  from gather_attributes_Inr [OF assms] fin ne show ?thesis
    by (auto simp: observed_attributes_def emit_observed_def seqs_Cons seqs_Nil seq_out_out)
qed

theorem observed_attributes_sorted_distinct_witness:
  \<open>gather_attributes {} (find_all_script widget_doc ''attr'') = Inr {''alpha'', ''value''}
   \<and> find_all_script widget_doc ''attr'' \<noteq> []
   \<and> sorted (observed_attributes {''alpha'', ''value''})
   \<and> distinct (observed_attributes {''alpha'', ''value''})
   \<and> emit_observed {''alpha'', ''value''} =
       out (''static get observedAttributes(){return''
            @ json_dumps (observed_attributes {''alpha'', ''value''}) @ '';}'')\<close>
proof -
  have ne: \<open>find_all_script widget_doc ''attr'' \<noteq> []\<close>
    by (simp add: widget_doc_def find_all_def find_all_script_def has_event_def)
  from observed_attributes_sorted_distinct [OF widget_attributes] widget_attributes ne show ?thesis by blast
qed

end
